theory Spec2Isabelle
  imports Main
begin

section \<open>The HTTP file cache of \<^verbatim>\<open>main.js\<close>\<close>

text \<open>
  The server maps a request path \<^verbatim>\<open>/DDD\<close> to the file \<^verbatim>\<open><cache>/DDD.jpeg\<close> and serves
  GET, PUT and DELETE on it. The model below follows \<^verbatim>\<open>main.js\<close> function by function.
  Strings and buffers are \<open>string\<close> (a list of 8-bit characters), the cache directory is
  a map from file paths to file contents, the console is the list of lines written, and
  the response object is a record that \<open>writeHead\<close>, \<open>write\<close> and \<open>end\<close> update.
  A request is handled in one step: the interleaving of concurrent requests is outside
  the model.
\<close>

subsection \<open>Router: \<^verbatim>\<open>getHttpCodeFromUrl\<close>\<close>

text \<open>The regular expression class \<^verbatim>\<open>\d\<close> of JavaScript: the ten ASCII digits.\<close>

definition is_digit :: "char \<Rightarrow> bool" where
  "is_digit c = (c \<in> set ''0123456789'')"

text \<open>
  \<^verbatim>\<open>url.match(/^\/(\d{3})$/)\<close>: the whole string is a slash and three digits (without the
  \<^verbatim>\<open>m\<close> flag \<^verbatim>\<open>$\<close> matches at the end of the input only); the result is the captured
  group, or \<^verbatim>\<open>null\<close>.
\<close>

fun getHttpCodeFromUrl :: "string \<Rightarrow> string option" where
  "getHttpCodeFromUrl [] = None"
| "getHttpCodeFromUrl (c # rest) =
     (if c = CHR ''/'' \<and> length rest = 3 \<and> list_all is_digit rest then Some rest else None)"

subsection \<open>Store: \<^verbatim>\<open>getCacheFilePath\<close> and \<^verbatim>\<open>path.join\<close>\<close>

text \<open>
  \<^verbatim>\<open>path.join\<close> is Node's, in its POSIX form: the non-empty arguments are joined with
  a slash and the result is normalised. Normalising splits the path at slashes, drops
  empty and \<^verbatim>\<open>.\<close> segments, lets \<^verbatim>\<open>..\<close> cancel the segment before it (or keeps it, in a
  relative path, when there is none to cancel), and puts back the leading and the
  trailing slash.
\<close>

fun split_sep :: "string \<Rightarrow> string list" where
  "split_sep [] = [] # []"
| "split_sep (c # cs) =
     (if c = CHR ''/'' then [] # split_sep cs
      else (case split_sep cs of [] \<Rightarrow> [c] # [] | s # ss \<Rightarrow> (c # s) # ss))"

definition normalize_step :: "bool \<Rightarrow> string list \<Rightarrow> string \<Rightarrow> string list" where
  "normalize_step allowAboveRoot stack seg =
     (if seg = [] \<or> seg = ''.'' then stack
      else if seg = ''..'' then
        (if stack \<noteq> [] \<and> last stack \<noteq> ''..'' then butlast stack
         else if allowAboveRoot then stack @ [''..'']
         else stack)
      else stack @ [seg])"

fun join_segments :: "string list \<Rightarrow> string" where
  "join_segments [] = []"
| "join_segments [s] = s"
| "join_segments (s # t # ss) = s @ ''/'' @ join_segments (t # ss)"

definition normalizeString :: "string \<Rightarrow> bool \<Rightarrow> string" where
  "normalizeString p allowAboveRoot =
     join_segments (foldl (normalize_step allowAboveRoot) [] (split_sep p))"

definition normalize :: "string \<Rightarrow> string" where
  "normalize p =
     (if p = [] then ''.''
      else
        (let isAbsolute = (hd p = CHR ''/'');
             trailingSeparator = (last p = CHR ''/'');
             q = normalizeString p (\<not> isAbsolute)
         in if q = [] then (if isAbsolute then ''/'' else if trailingSeparator then ''./'' else ''.'')
            else (if isAbsolute then ''/'' else []) @ q @ (if trailingSeparator then ''/'' else [])))"

definition path_join :: "string \<Rightarrow> string \<Rightarrow> string" where
  "path_join a b =
     (let joined = (if a = [] then b else if b = [] then a else a @ ''/'' @ b)
      in if joined = [] then ''.'' else normalize joined)"

text \<open>\<^verbatim>\<open>path.join(options.cache, `${code}.jpeg`)\<close>; the first argument is \<^verbatim>\<open>options.cache\<close>.\<close>

definition getCacheFilePath :: "string \<Rightarrow> string \<Rightarrow> string" where
  "getCacheFilePath cache code = path_join cache (code @ ''.jpeg'')"

subsection \<open>The environment: file system, console, errors\<close>

text \<open>A Node error object, as far as the program reads it: \<^verbatim>\<open>err.code\<close> and \<^verbatim>\<open>err.message\<close>.\<close>

record io_error =
  err_code :: string
  message :: string

datatype log_line = Stdout string | Stderr string

record world =
  files :: "string \<rightharpoonup> string"
  console :: "log_line list"

definition console_log :: "string \<Rightarrow> world \<Rightarrow> world" where
  "console_log s w = w\<lparr>console := console w @ [Stdout s]\<rparr>"

definition console_error :: "string \<Rightarrow> world \<Rightarrow> world" where
  "console_error s w = w\<lparr>console := console w @ [Stderr s]\<rparr>"

text \<open>
  What the operating system and the network may do to one request, beyond what the
  state of the cache directory decides:
  \<^item> \<open>open_throws\<close>: \<^verbatim>\<open>createReadStream\<close> throws at the call. Node throws there for an
    invalid argument only; it opens the file later and reports a failure to open (a
    missing file also) through the stream's \<^verbatim>\<open>error\<close> event, so for the paths of this
    program the field is \<open>None\<close>. It is kept so that the \<^verbatim>\<open>catch\<close> block of \<^verbatim>\<open>handleGet\<close>
    is a branch of the model;
  \<^item> \<open>read_fault\<close>: the read stream fails with the given error after that many bytes;
  \<^item> \<open>write_fault\<close>: \<^verbatim>\<open>writeFile\<close> rejects with the given error and leaves the file
    in the given state (\<open>None\<close>: no file);
  \<^item> \<open>unlink_fault\<close>: \<^verbatim>\<open>unlink\<close> rejects with the given error.
\<close>

record faults =
  open_throws :: "io_error option"
  read_fault :: "(nat \<times> io_error) option"
  write_fault :: "(io_error \<times> string option) option"
  unlink_fault :: "io_error option"

definition no_faults :: faults where
  "no_faults = \<lparr>open_throws = None, read_fault = None, write_fault = None, unlink_fault = None\<rparr>"

definition enoent :: "string \<Rightarrow> string \<Rightarrow> io_error" where
  "enoent syscall p =
     \<lparr>err_code = ''ENOENT'',
      message = ''ENOENT: no such file or directory, '' @ syscall @ '' '' @ [CHR 0x27] @ p @ [CHR 0x27]\<rparr>"

text \<open>\<^verbatim>\<open>fsBase.createReadStream(filePath)\<close>: the stream is its path; nothing is opened yet.\<close>

definition createReadStream :: "faults \<Rightarrow> string \<Rightarrow> io_error + string" where
  "createReadStream flt p = (case open_throws flt of Some e \<Rightarrow> Inl e | None \<Rightarrow> Inr p)"

text \<open>
  The events of a read stream: the bytes it delivers, and the error it ends with, if
  any. A missing file delivers nothing and fails with \<^verbatim>\<open>ENOENT\<close>.
\<close>

definition stream_events :: "faults \<Rightarrow> (string \<rightharpoonup> string) \<Rightarrow> string \<Rightarrow> string \<times> io_error option" where
  "stream_events flt fs p =
     (case read_fault flt of
        Some (n, e) \<Rightarrow> (take n (case fs p of None \<Rightarrow> [] | Some content \<Rightarrow> content), Some e)
      | None \<Rightarrow>
          (case fs p of
             None \<Rightarrow> ([], Some (enoent ''open'' p))
           | Some content \<Rightarrow> (content, None)))"

text \<open>\<^verbatim>\<open>fs.writeFile(filePath, buffer)\<close>: creates or replaces the file at that path.\<close>

definition fs_writeFile ::
  "faults \<Rightarrow> string \<Rightarrow> string \<Rightarrow> (string \<rightharpoonup> string) \<Rightarrow> (io_error + unit) \<times> (string \<rightharpoonup> string)" where
  "fs_writeFile flt p content fs =
     (case write_fault flt of
        Some (e, left) \<Rightarrow> (Inl e, fs(p := left))
      | None \<Rightarrow> (Inr (), fs(p \<mapsto> content)))"

text \<open>\<^verbatim>\<open>fs.unlink(filePath)\<close>: removes the file; \<^verbatim>\<open>ENOENT\<close> when there is none.\<close>

definition fs_unlink ::
  "faults \<Rightarrow> string \<Rightarrow> (string \<rightharpoonup> string) \<Rightarrow> (io_error + unit) \<times> (string \<rightharpoonup> string)" where
  "fs_unlink flt p fs =
     (case unlink_fault flt of
        Some e \<Rightarrow> (Inl e, fs)
      | None \<Rightarrow>
          (case fs p of
             None \<Rightarrow> (Inl (enoent ''unlink'' p), fs)
           | Some _ \<Rightarrow> (Inr (), fs(p := None))))"

subsection \<open>Requests and responses\<close>

text \<open>
  The request: method, URL, and the body stream as the chunks it delivers and the error
  it ends with, if any.
\<close>

record request =
  req_method :: string
  req_url :: string
  chunks :: "string list"
  body_error :: "io_error option"

text \<open>
  The response object. \<open>headersSent\<close> is Node's property of that name: true from
  \<^verbatim>\<open>writeHead\<close> on. Every call of \<open>writeHead\<close> below is on a response whose headers
  were not sent (Node throws otherwise).
\<close>

record response =
  statusCode :: nat
  headers :: "(string \<times> string) list"
  headersSent :: bool
  body :: string
  finished :: bool

definition fresh_response :: response where
  "fresh_response = \<lparr>statusCode = 200, headers = [], headersSent = False, body = [], finished = False\<rparr>"

definition writeHead :: "nat \<Rightarrow> (string \<times> string) list \<Rightarrow> response \<Rightarrow> response" where
  "writeHead status hs res = res\<lparr>statusCode := status, headers := hs, headersSent := True\<rparr>"

definition res_write :: "string \<Rightarrow> response \<Rightarrow> response" where
  "res_write s res = res\<lparr>headersSent := True, body := body res @ s\<rparr>"

definition res_end :: "string \<Rightarrow> response \<Rightarrow> response" where
  "res_end s res = res\<lparr>headersSent := True, body := body res @ s, finished := True\<rparr>"

abbreviation text_plain :: "(string \<times> string) list" where
  "text_plain \<equiv> [(''Content-Type'', ''text/plain'')]"

subsection \<open>Handlers\<close>

definition handleGet :: "string \<Rightarrow> faults \<Rightarrow> string \<Rightarrow> response \<Rightarrow> world \<Rightarrow> response \<times> world" where
  "handleGet cache flt code res w =
     (let filePath = getCacheFilePath cache code in
      case createReadStream flt filePath of
        Inr readStream \<Rightarrow>
          (let res1 = writeHead 200 [(''Content-Type'', ''image/jpeg''), (''X-Cache'', ''HIT'')] res;
               w1 = console_log (''[GET '' @ code @ ''] Image served from cache (200 OK).'') w;
               (piped, failure) = stream_events flt (files w1) readStream;
               res2 = res_write piped res1
           in case failure of
                None \<Rightarrow> (res_end [] res2, w1)
              | Some streamErr \<Rightarrow>
                  (let w2 = console_error (''[GET '' @ code @ ''] Stream error: '' @ message streamErr) w1
                   in if \<not> headersSent res2
                      then (res_end ''Internal Server Error during file streaming.''
                              (writeHead 500 text_plain res2), w2)
                      else (res_end [] res2, w2)))
      | Inl err \<Rightarrow>
          (if err_code err = ''ENOENT''
           then (res_end (''Not Found: Image for code '' @ code @ '' not in cache.'')
                   (writeHead 404 text_plain res),
                 console_log (''[GET '' @ code @ ''] Image not found (404 Not Found).'') w)
           else (res_end ''Internal Server Error while reading from cache.''
                   (writeHead 500 text_plain res),
                 console_error (''[GET '' @ code @ ''] Error reading from cache: '' @ message err) w)))"

text \<open>\<^verbatim>\<open>for await (const chunk of req)\<close>: all the chunks, or the error of the stream.\<close>

definition read_body :: "request \<Rightarrow> io_error + string list" where
  "read_body req = (case body_error req of Some e \<Rightarrow> Inl e | None \<Rightarrow> Inr (chunks req))"

definition handlePut ::
  "string \<Rightarrow> faults \<Rightarrow> string \<Rightarrow> request \<Rightarrow> response \<Rightarrow> world \<Rightarrow> response \<times> world" where
  "handlePut cache flt code req res w =
     (let filePath = getCacheFilePath cache code in
      case read_body req of
        Inl err \<Rightarrow>
          (res_end ''Internal Server Error.'' (writeHead 500 text_plain res),
           console_error (''[PUT '' @ code @ ''] Error reading request body: '' @ message err) w)
      | Inr received \<Rightarrow>
          (let imageBuffer = concat received in
           if length imageBuffer = 0
           then (res_end ''Bad Request: Image body is empty.'' (writeHead 400 text_plain res), w)
           else
             (case fs_writeFile flt filePath imageBuffer (files w) of
                (Inr _, fs') \<Rightarrow>
                  (res_end (''Created: Image for code '' @ code @ '' saved/replaced in cache.'')
                     (writeHead 201 text_plain res),
                   console_log (''[PUT '' @ code @ ''] Image saved/replaced (201 Created).'')
                     (w\<lparr>files := fs'\<rparr>))
              | (Inl err, fs') \<Rightarrow>
                  (res_end ''Internal Server Error while saving file.'' (writeHead 500 text_plain res),
                   console_error (''[PUT '' @ code @ ''] Error saving file: '' @ message err)
                     (w\<lparr>files := fs'\<rparr>)))))"

definition handleDelete :: "string \<Rightarrow> faults \<Rightarrow> string \<Rightarrow> response \<Rightarrow> world \<Rightarrow> response \<times> world" where
  "handleDelete cache flt code res w =
     (let filePath = getCacheFilePath cache code in
      case fs_unlink flt filePath (files w) of
        (Inr _, fs') \<Rightarrow>
          (res_end (''OK: Image for code '' @ code @ '' deleted from cache.'')
             (writeHead 200 text_plain res),
           console_log (''[DELETE '' @ code @ ''] Image deleted (200 OK).'') (w\<lparr>files := fs'\<rparr>))
      | (Inl err, fs') \<Rightarrow>
          (if err_code err = ''ENOENT''
           then (res_end ''Not Found: Image not in cache.'' (writeHead 404 text_plain res),
                 console_log (''[DELETE '' @ code @ ''] Image not found (404 Not Found).'')
                   (w\<lparr>files := fs'\<rparr>))
           else (res_end ''Internal Server Error while deleting file.'' (writeHead 500 text_plain res),
                 console_error (''[DELETE '' @ code @ ''] Error deleting file: '' @ message err)
                   (w\<lparr>files := fs'\<rparr>))))"

subsection \<open>The request listener of \<^verbatim>\<open>startServer\<close>\<close>

definition requestListener :: "string \<Rightarrow> faults \<Rightarrow> request \<Rightarrow> world \<Rightarrow> response \<times> world" where
  "requestListener cache flt req w =
     (case getHttpCodeFromUrl (req_url req) of
        None \<Rightarrow>
          (res_end ''Invalid URL format. Use /XXX where XXX is a 3-digit HTTP code.''
             (writeHead 404 text_plain fresh_response), w)
      | Some httpCode \<Rightarrow>
          (let w1 = console_log (''Request: '' @ req_method req @ '' '' @ req_url req) w in
           if req_method req = ''GET'' then handleGet cache flt httpCode fresh_response w1
           else if req_method req = ''PUT'' then handlePut cache flt httpCode req fresh_response w1
           else if req_method req = ''DELETE'' then handleDelete cache flt httpCode fresh_response w1
           else (res_end ''Method Not Allowed'' (writeHead 405 text_plain fresh_response), w1)))"

text \<open>The server handling requests one after the other.\<close>

fun serve :: "string \<Rightarrow> (faults \<times> request) list \<Rightarrow> world \<Rightarrow> response list \<times> world" where
  "serve cache [] w = ([], w)"
| "serve cache ((flt, req) # rest) w =
     (let (res, w1) = requestListener cache flt req w;
          (ress, w2) = serve cache rest w1
      in (res # ress, w2))"


subsection \<open>The vocabulary of the specification\<close>

text \<open>A code: exactly three ASCII digits (character codes 48 to 57).\<close>

definition valid_code :: "string \<Rightarrow> bool" where
  "valid_code code =
     (length code = 3 \<and> (\<forall>c \<in> set code. 48 \<le> (of_char c :: nat) \<and> (of_char c :: nat) \<le> 57))"

text \<open>A path the router accepts, in the specification's words: a slash followed by a code.\<close>

definition is_code_path :: "string \<Rightarrow> bool" where
  "is_code_path u = (case u of [] \<Rightarrow> False | c # code \<Rightarrow> c = CHR ''/'' \<and> valid_code code)"

text \<open>
  The cache directory as \<^verbatim>\<open>path.join\<close> writes it in front of a file name: the
  normalised directory with its separator, or nothing when the directory normalises to
  the current one.
\<close>

definition cache_dir_prefix :: "string \<Rightarrow> string" where
  "cache_dir_prefix cache =
     (if cache = [] then []
      else
        (let isAbsolute = (hd cache = CHR ''/'');
             stack = foldl (normalize_step (\<not> isAbsolute)) [] (split_sep cache)
         in (if isAbsolute then ''/'' else []) @ (if stack = [] then [] else join_segments stack @ ''/'')))"

text \<open>Two executions that differ in the messages of the errors they meet, and in nothing else.\<close>

definition same_but_message :: "io_error \<Rightarrow> io_error \<Rightarrow> bool" where
  "same_but_message e e' = (err_code e = err_code e')"

definition faults_alike :: "faults \<Rightarrow> faults \<Rightarrow> bool" where
  "faults_alike f f' =
     (rel_option same_but_message (open_throws f) (open_throws f')
      \<and> rel_option (rel_prod (=) same_but_message) (read_fault f) (read_fault f')
      \<and> rel_option (rel_prod same_but_message (=)) (write_fault f) (write_fault f')
      \<and> rel_option same_but_message (unlink_fault f) (unlink_fault f'))"

definition requests_alike :: "request \<Rightarrow> request \<Rightarrow> bool" where
  "requests_alike r r' =
     (req_method r = req_method r' \<and> req_url r = req_url r' \<and> chunks r = chunks r'
      \<and> rel_option same_but_message (body_error r) (body_error r'))"

text \<open>The bodies of the responses with status 500 that the handlers can send.\<close>

definition server_error_bodies :: "string list" where
  "server_error_bodies =
     [''Internal Server Error while reading from cache.'',
      ''Internal Server Error.'',
      ''Internal Server Error while saving file.'',
      ''Internal Server Error while deleting file.'']"

text \<open>Sample inputs: a request whose body arrives whole, and the empty cache directory.\<close>

definition request_of :: "string \<Rightarrow> string \<Rightarrow> string list \<Rightarrow> request" where
  "request_of m u cs = \<lparr>req_method = m, req_url = u, chunks = cs, body_error = None\<rparr>"

definition empty_cache :: world where
  "empty_cache = \<lparr>files = Map.empty, console = []\<rparr>"

definition hit_response :: "string \<Rightarrow> response" where
  "hit_response content =
     \<lparr>statusCode = 200, headers = [(''Content-Type'', ''image/jpeg''), (''X-Cache'', ''HIT'')],
      headersSent = True, body = content, finished = True\<rparr>"

definition text_response :: "nat \<Rightarrow> string \<Rightarrow> response" where
  "text_response status msg =
     \<lparr>statusCode = status, headers = [(''Content-Type'', ''text/plain'')],
      headersSent = True, body = msg, finished = True\<rparr>"

section \<open>Properties\<close>

subsection \<open>The router\<close>

lemma is_digit_ascii: "is_digit c \<longleftrightarrow> 48 \<le> (of_char c :: nat) \<and> (of_char c :: nat) \<le> 57"
  unfolding is_digit_def by (cases c) auto

lemma list_all_is_digit: "length code = 3 \<and> list_all is_digit code \<longleftrightarrow> valid_code code"
  by (auto simp: valid_code_def list_all_iff is_digit_ascii)

lemma getHttpCodeFromUrl_Some:
  "getHttpCodeFromUrl u = Some code \<longleftrightarrow> u = CHR ''/'' # code \<and> valid_code code"
  by (cases u) (auto simp: list_all_is_digit [symmetric])

lemma getHttpCodeFromUrl_None: "getHttpCodeFromUrl u = None \<longleftrightarrow> \<not> is_code_path u"
  by (cases u) (auto simp: is_code_path_def list_all_is_digit [symmetric])

lemma is_code_path_code: "is_code_path u \<Longrightarrow> getHttpCodeFromUrl u = Some (tl u)"
  by (cases u) (auto simp: is_code_path_def list_all_is_digit [symmetric])

lemma valid_code_path:
  "u = CHR ''/'' # code \<Longrightarrow> valid_code code \<Longrightarrow> getHttpCodeFromUrl u = Some code"
  by (simp add: list_all_is_digit)

lemma valid_code_404: "valid_code ''404''"
  by (simp add: valid_code_def)

lemma valid_code_200: "valid_code ''200''"
  by (simp add: valid_code_def)

lemmas handler_defs =
  handleGet_def handlePut_def handleDelete_def read_body_def createReadStream_def stream_events_def
  fs_writeFile_def fs_unlink_def res_end_def res_write_def writeHead_def fresh_response_def
  console_log_def console_error_def enoent_def hit_response_def text_response_def

lemmas sample_defs = request_of_def empty_cache_def no_faults_def

subsection \<open>File paths\<close>

lemma split_sep_not_Nil: "split_sep s \<noteq> []"
  by (induction s) (auto split: list.splits)

lemma split_sep_single: "CHR ''/'' \<notin> set s \<Longrightarrow> split_sep s = [s]"
  by (induction s) auto

lemma split_sep_append: "split_sep (a @ CHR ''/'' # b) = split_sep a @ split_sep b"
  by (induction a) (auto split: list.splits simp: split_sep_not_Nil)

lemma join_segments_snoc:
  "join_segments (st @ [f]) = (if st = [] then f else join_segments st @ ''/'' @ f)"
  by (induction st rule: join_segments.induct) auto

lemma normalize_step_file:
  "f \<noteq> [] \<Longrightarrow> f \<noteq> ''.'' \<Longrightarrow> f \<noteq> ''..'' \<Longrightarrow> normalize_step a st f = st @ [f]"
  by (simp add: normalize_step_def)

lemma normalizeString_dir_file:
  assumes "CHR ''/'' \<notin> set f" and "f \<noteq> []" and "f \<noteq> ''.''" and "f \<noteq> ''..''"
  shows "normalizeString (d @ ''/'' @ f) a =
           (let st = foldl (normalize_step a) [] (split_sep d)
            in if st = [] then f else join_segments st @ ''/'' @ f)"
  using assms
  by (simp add: normalizeString_def split_sep_append split_sep_single normalize_step_file
      join_segments_snoc Let_def)

lemma normalizeString_file:
  assumes "CHR ''/'' \<notin> set f" and "f \<noteq> []" and "f \<noteq> ''.''" and "f \<noteq> ''..''"
  shows "normalizeString f a = f"
  using assms by (simp add: normalizeString_def split_sep_single normalize_step_file)

text \<open>A plain file name joined to the cache directory lands directly in that directory.\<close>

lemma path_join_file:
  assumes "CHR ''/'' \<notin> set f" and "f \<noteq> []" and "f \<noteq> ''.''" and "f \<noteq> ''..''"
  shows "path_join cache f = cache_dir_prefix cache @ f"
proof (cases "cache = []")
  case True
  from assms have "hd f \<noteq> CHR ''/''" by (cases f) auto
  moreover from assms have "last f \<noteq> CHR ''/''" using last_in_set by metis
  ultimately show ?thesis using True assms
    by (simp add: path_join_def normalize_def cache_dir_prefix_def normalizeString_file)
next
  case False
  from assms have l: "last f \<noteq> CHR ''/''" using last_in_set by metis
  have n: "normalizeString (cache @ CHR ''/'' # f) a =
           (let st = foldl (normalize_step a) [] (split_sep cache)
            in if st = [] then f else join_segments st @ ''/'' @ f)" for a
    using normalizeString_dir_file [OF assms, of cache a] by simp
  from False assms l show ?thesis
    by (simp add: path_join_def normalize_def cache_dir_prefix_def n Let_def)
qed

lemma cache_dir_prefix_closed:
  "cache_dir_prefix cache = [] \<or> last (cache_dir_prefix cache) = CHR ''/''"
  by (simp add: cache_dir_prefix_def Let_def)

lemma valid_code_no_sep: "valid_code code \<Longrightarrow> CHR ''/'' \<notin> set (code @ ''.jpeg'')"
  by (auto simp: valid_code_def)

lemma getCacheFilePath_prefix:
  assumes "valid_code code"
  shows "getCacheFilePath cache code = cache_dir_prefix cache @ code @ ''.jpeg''"
proof -
  have "code @ ''.jpeg'' \<noteq> ''.''" "code @ ''.jpeg'' \<noteq> ''..''"
    using assms by (auto simp: valid_code_def append_eq_Cons_conv)
  then show ?thesis
    unfolding getCacheFilePath_def
    using path_join_file [OF valid_code_no_sep [OF assms], of cache] by simp
qed

lemma getCacheFilePath_inj:
  "valid_code c \<Longrightarrow> valid_code c' \<Longrightarrow> getCacheFilePath cache c = getCacheFilePath cache c' \<Longrightarrow> c = c'"
  by (simp add: getCacheFilePath_prefix)

subsection \<open>Handlers\<close>

lemma put_success_stores:
  assumes "getHttpCodeFromUrl (req_url req) = Some code" and "req_method req = ''PUT''"
    and "statusCode (fst (requestListener cache flt req w)) = 201"
  shows "files (snd (requestListener cache flt req w)) (getCacheFilePath cache code)
           = Some (concat (chunks req))"
  using assms
  by (auto simp: requestListener_def handler_defs Let_def
      split: option.splits if_splits prod.splits sum.splits)

lemma get_hit:
  assumes "getHttpCodeFromUrl (req_url req) = Some code" and "req_method req = ''GET''"
    and "files w (getCacheFilePath cache code) = Some content"
    and "open_throws flt = None" and "read_fault flt = None"
  shows "fst (requestListener cache flt req w) = hit_response content"
  using assms by (simp add: requestListener_def handler_defs Let_def)

text \<open>
  A GET for a code without a file: the status line and the headers of a hit are
  written before the stream reports the missing file, and the response ends empty.
\<close>

lemma get_miss:
  assumes "getHttpCodeFromUrl (req_url req) = Some code" and "req_method req = ''GET''"
    and "files w (getCacheFilePath cache code) = None"
    and "open_throws flt = None" and "read_fault flt = None"
  shows "fst (requestListener cache flt req w) = hit_response []"
  using assms by (simp add: requestListener_def handler_defs Let_def)

lemma serve_snoc:
  "serve cache (xs @ [(flt, req)]) w =
     (let (ress, w1) = serve cache xs w;
          (res, w2) = requestListener cache flt req w1
      in (ress @ [res], w2))"
  by (induction xs arbitrary: w) (auto simp: Let_def split: prod.splits)

lemma handleGet_alike:
  assumes "faults_alike flt flt'"
  shows "fst (handleGet cache flt code res w) = fst (handleGet cache flt' code res w)"
  using assms
  by (cases "open_throws flt"; cases "open_throws flt'"; cases "read_fault flt"; cases "read_fault flt'")
     (auto simp: faults_alike_def same_but_message_def handler_defs Let_def split: option.splits)

lemma handlePut_alike:
  assumes "faults_alike flt flt'" and "requests_alike req req'"
  shows "fst (handlePut cache flt code req res w) = fst (handlePut cache flt' code req' res w)"
  using assms
  by (cases "body_error req"; cases "body_error req'"; cases "write_fault flt"; cases "write_fault flt'")
     (auto simp: faults_alike_def requests_alike_def same_but_message_def handler_defs Let_def)

lemma handleDelete_alike:
  assumes "faults_alike flt flt'"
  shows "fst (handleDelete cache flt code res w) = fst (handleDelete cache flt' code res w)"
  using assms
  by (cases "unlink_fault flt"; cases "unlink_fault flt'")
     (auto simp: faults_alike_def same_but_message_def handler_defs Let_def split: option.splits)

lemma requestListener_alike:
  assumes "faults_alike flt flt'" and "requests_alike req req'"
  shows "fst (requestListener cache flt req w) = fst (requestListener cache flt' req' w)"
proof -
  from assms(2) have "req_method req' = req_method req" "req_url req' = req_url req"
    by (simp_all add: requests_alike_def)
  then show ?thesis
    using handleGet_alike [OF assms(1)] handlePut_alike [OF assms] handleDelete_alike [OF assms(1)]
    by (simp add: requestListener_def Let_def split: option.splits)
qed

lemma handleGet_500:
  "statusCode (fst (handleGet cache flt code fresh_response w)) = 500 \<Longrightarrow>
   fst (handleGet cache flt code fresh_response w) =
     text_response 500 ''Internal Server Error while reading from cache.''"
  by (auto simp: handler_defs Let_def split: option.splits if_splits prod.splits)

lemma handlePut_500:
  "statusCode (fst (handlePut cache flt code req fresh_response w)) = 500 \<Longrightarrow>
   headers (fst (handlePut cache flt code req fresh_response w)) = text_plain \<and>
   body (fst (handlePut cache flt code req fresh_response w))
     \<in> {''Internal Server Error.'', ''Internal Server Error while saving file.''}"
  by (auto simp: handler_defs Let_def split: option.splits if_splits prod.splits)

lemma handleDelete_500:
  "statusCode (fst (handleDelete cache flt code fresh_response w)) = 500 \<Longrightarrow>
   fst (handleDelete cache flt code fresh_response w) =
     text_response 500 ''Internal Server Error while deleting file.''"
  by (auto simp: handler_defs Let_def split: option.splits if_splits prod.splits)

lemma requestListener_500:
  assumes "statusCode (fst (requestListener cache flt req w)) = 500"
  shows "headers (fst (requestListener cache flt req w)) = text_plain \<and>
         body (fst (requestListener cache flt req w)) \<in> set server_error_bodies"
proof (cases "getHttpCodeFromUrl (req_url req)")
  case None
  with assms show ?thesis
    by (simp add: requestListener_def res_end_def writeHead_def fresh_response_def)
next
  case (Some c)
  let ?w = "console_log (''Request: '' @ req_method req @ '' '' @ req_url req) w"
  consider (g) "req_method req = ''GET''" | (p) "req_method req = ''PUT''"
    | (d) "req_method req = ''DELETE''"
    | (o) "req_method req \<noteq> ''GET''" "req_method req \<noteq> ''PUT''" "req_method req \<noteq> ''DELETE''"
    by blast
  then show ?thesis
  proof cases
    case g
    with Some assms have "statusCode (fst (handleGet cache flt c fresh_response ?w)) = 500"
      by (simp add: requestListener_def)
    from handleGet_500 [OF this] g Some show ?thesis
      by (simp add: requestListener_def server_error_bodies_def text_response_def)
  next
    case p
    with Some assms have "statusCode (fst (handlePut cache flt c req fresh_response ?w)) = 500"
      by (simp add: requestListener_def)
    from handlePut_500 [OF this] p Some show ?thesis
      by (auto simp add: requestListener_def server_error_bodies_def)
  next
    case d
    with Some assms have "statusCode (fst (handleDelete cache flt c fresh_response ?w)) = 500"
      by (simp add: requestListener_def)
    from handleDelete_500 [OF this] d Some show ?thesis
      by (simp add: requestListener_def server_error_bodies_def text_response_def)
  next
    case o
    with Some assms show ?thesis
      by (simp add: requestListener_def res_end_def writeHead_def fresh_response_def)
  qed
qed

lemma handleGet_files: "files (snd (handleGet cache flt code res w)) = files w"
  by (auto simp: handler_defs Let_def split: option.splits if_splits prod.splits sum.splits)

lemma handlePut_files:
  "p \<noteq> getCacheFilePath cache code \<Longrightarrow> files (snd (handlePut cache flt code req res w)) p = files w p"
  by (auto simp: handler_defs Let_def split: option.splits if_splits prod.splits sum.splits)

lemma handleDelete_files:
  "p \<noteq> getCacheFilePath cache code \<Longrightarrow> files (snd (handleDelete cache flt code res w)) p = files w p"
  by (auto simp: handler_defs Let_def split: option.splits if_splits prod.splits sum.splits)

lemma requestListener_files:
  assumes "getHttpCodeFromUrl (req_url req) = Some code" and "p \<noteq> getCacheFilePath cache code"
  shows "files (snd (requestListener cache flt req w)) p = files w p"
  using assms handleGet_files handlePut_files handleDelete_files
  by (simp add: requestListener_def Let_def console_log_def)

lemma requestListener_get_files:
  assumes "req_method req = ''GET''"
  shows "files (snd (requestListener cache flt req w)) = files w"
  using assms handleGet_files
  by (simp add: requestListener_def Let_def console_log_def split: option.splits)

lemma delete_ok_was_present:
  assumes "getHttpCodeFromUrl (req_url req) = Some code" and "req_method req = ''DELETE''"
    and "statusCode (fst (requestListener cache flt req w)) = 200"
  shows "files w (getCacheFilePath cache code) \<noteq> None
       \<and> files (snd (requestListener cache flt req w)) (getCacheFilePath cache code) = None"
  using assms
  by (auto simp: requestListener_def handler_defs Let_def
      split: option.splits if_splits prod.splits sum.splits)

lemma delete_present:
  assumes "getHttpCodeFromUrl (req_url req) = Some code" and "req_method req = ''DELETE''"
    and "unlink_fault flt = None" and "files w (getCacheFilePath cache code) = Some content"
  shows "fst (requestListener cache flt req w) =
           text_response 200 (''OK: Image for code '' @ code @ '' deleted from cache.'')
       \<and> files (snd (requestListener cache flt req w)) (getCacheFilePath cache code) = None"
  using assms by (simp add: requestListener_def handler_defs Let_def)

lemma delete_absent:
  assumes "getHttpCodeFromUrl (req_url req) = Some code" and "req_method req = ''DELETE''"
    and "unlink_fault flt = None" and "files w (getCacheFilePath cache code) = None"
  shows "fst (requestListener cache flt req w) = text_response 404 ''Not Found: Image not in cache.''
       \<and> files (snd (requestListener cache flt req w)) = files w"
  using assms by (simp add: requestListener_def handler_defs Let_def)

section \<open>The claims of the specification\<close>

text \<open>
  C1. The specification says that a GET for a valid code with no entry in the cache is
  answered with status 404, also after a DELETE removed the entry. The program does
  otherwise: \<^verbatim>\<open>createReadStream\<close> does not fail at the call, so \<^verbatim>\<open>handleGet\<close> writes status
  200 with the headers of a hit, and when the stream reports the missing file the
  headers are sent already and the response is ended with an empty body. On the empty
  cache a GET of \<^verbatim>\<open>/404\<close> is answered 200, and so is the GET that follows a PUT and a
  DELETE of the same code.
\<close>

theorem get_missing_entry_served_as_hit:
  "fst (requestListener ''cache'' no_faults (request_of ''GET'' ''/404'' []) empty_cache)
     = \<lparr>statusCode = 200, headers = [(''Content-Type'', ''image/jpeg''), (''X-Cache'', ''HIT'')],
        headersSent = True, body = [], finished = True\<rparr>
   \<and> map statusCode (fst (serve ''cache''
        [(no_faults, request_of ''PUT'' ''/404'' [''hello'']),
         (no_faults, request_of ''DELETE'' ''/404'' []),
         (no_faults, request_of ''GET'' ''/404'' [])] empty_cache)) = [201, 200, 200]
   \<and> map body (fst (serve ''cache''
        [(no_faults, request_of ''PUT'' ''/404'' [''hello'']),
         (no_faults, request_of ''DELETE'' ''/404'' []),
         (no_faults, request_of ''GET'' ''/404'' [])] empty_cache))
      = [''Created: Image for code 404 saved/replaced in cache.'',
         ''OK: Image for code 404 deleted from cache.'', []]"
  by (simp add: requestListener_def handler_defs sample_defs Let_def is_digit_def)

text \<open>
  C2. For a valid code, after a non-empty sequence of PUT requests to its path that all
  succeed (status 201, which a PUT with an empty body never has), a GET of the same
  path whose read meets no failure is answered with status 200, the headers
  \<^verbatim>\<open>Content-Type: image/jpeg\<close> and \<^verbatim>\<open>X-Cache: HIT\<close>, and exactly the body of the last PUT.
\<close>

theorem put_get_roundtrip:
  assumes "valid_code code" and "puts \<noteq> []"
    and "\<forall>(f, r) \<in> set puts. req_method r = ''PUT'' \<and> req_url r = CHR ''/'' # code"
    and "\<forall>res \<in> set (fst (serve cache puts w)). statusCode res = 201"
    and "req_method g = ''GET''" and "req_url g = CHR ''/'' # code"
    and "open_throws gf = None" and "read_fault gf = None"
  shows "fst (requestListener cache gf g (snd (serve cache puts w))) =
           \<lparr>statusCode = 200, headers = [(''Content-Type'', ''image/jpeg''), (''X-Cache'', ''HIT'')],
            headersSent = True, body = concat (chunks (snd (last puts))), finished = True\<rparr>"
proof -
  from assms(2) obtain xs f r where puts: "puts = xs @ [(f, r)]"
    by (metis rev_exhaust surj_pair)
  obtain ress w1 where s: "serve cache xs w = (ress, w1)" by fastforce
  from puts assms(3) have r: "req_method r = ''PUT''" "req_url r = CHR ''/'' # code" by auto
  from r(2) assms(1) have rc: "getHttpCodeFromUrl (req_url r) = Some code"
    by (rule valid_code_path)
  from assms(6,1) have gc: "getHttpCodeFromUrl (req_url g) = Some code"
    by (rule valid_code_path)
  from puts s have all: "serve cache puts w =
      (ress @ [fst (requestListener cache f r w1)], snd (requestListener cache f r w1))"
    by (simp add: serve_snoc split: prod.splits)
  with assms(4) have "statusCode (fst (requestListener cache f r w1)) = 201" by simp
  from put_success_stores [OF rc r(1) this]
  have "files (snd (serve cache puts w)) (getCacheFilePath cache code) = Some (concat (chunks r))"
    by (simp add: all)
  from get_hit [OF gc assms(5) this assms(7,8)] puts show ?thesis
    by (simp add: hit_response_def)
qed

theorem put_get_roundtrip_witness:
  "valid_code ''404''
   \<and> map statusCode (fst (serve ''cache''
          [(no_faults, request_of ''PUT'' ''/404'' [''old'']),
           (no_faults, request_of ''PUT'' ''/404'' [''hel'', ''lo''])] empty_cache)) = [201, 201]
   \<and> fst (requestListener ''cache'' no_faults (request_of ''GET'' ''/404'' [])
        (snd (serve ''cache''
          [(no_faults, request_of ''PUT'' ''/404'' [''old'']),
           (no_faults, request_of ''PUT'' ''/404'' [''hel'', ''lo''])] empty_cache)))
      = \<lparr>statusCode = 200, headers = [(''Content-Type'', ''image/jpeg''), (''X-Cache'', ''HIT'')],
         headersSent = True, body = ''hello'', finished = True\<rparr>"
proof -
  let ?puts = "[(no_faults, request_of ''PUT'' ''/404'' [''old'']),
                (no_faults, request_of ''PUT'' ''/404'' [''hel'', ''lo''])]"
  have h2: "?puts \<noteq> []" by simp
  have h3: "\<forall>(f, r) \<in> set ?puts. req_method r = ''PUT'' \<and> req_url r = CHR ''/'' # ''404''"
    by (simp add: request_of_def)
  have run: "map statusCode (fst (serve ''cache'' ?puts empty_cache)) = [201, 201]"
    by (simp add: requestListener_def handler_defs sample_defs Let_def is_digit_def)
  have "set (map statusCode (fst (serve ''cache'' ?puts empty_cache))) = {201}"
    by (simp only: run) simp
  then have h4: "\<forall>res \<in> set (fst (serve ''cache'' ?puts empty_cache)). statusCode res = 201"
    by auto
  have h5: "req_method (request_of ''GET'' ''/404'' []) = ''GET''" by (simp add: request_of_def)
  have h6: "req_url (request_of ''GET'' ''/404'' []) = CHR ''/'' # ''404''"
    by (simp add: request_of_def)
  have h7: "open_throws no_faults = None" by (simp add: no_faults_def)
  have h8: "read_fault no_faults = None" by (simp add: no_faults_def)
  from put_get_roundtrip [OF valid_code_404 h2 h3 h4 h5 h6 h7 h8]
  have "fst (requestListener ''cache'' no_faults (request_of ''GET'' ''/404'' [])
          (snd (serve ''cache'' ?puts empty_cache)))
        = \<lparr>statusCode = 200, headers = [(''Content-Type'', ''image/jpeg''), (''X-Cache'', ''HIT'')],
           headersSent = True, body = ''hello'', finished = True\<rparr>"
    by (simp add: request_of_def)
  with valid_code_404 run show ?thesis by blast
qed

text \<open>
  C3. A request whose path is not a slash followed by three ASCII digits is answered
  with status 404 and a plain-text explanation, whatever its method, and nothing else
  happens: neither the cache directory nor the console changes.
\<close>

theorem invalid_path_not_found:
  assumes "\<not> is_code_path (req_url req)"
  shows "requestListener cache flt req w =
           (\<lparr>statusCode = 404, headers = [(''Content-Type'', ''text/plain'')], headersSent = True,
             body = ''Invalid URL format. Use /XXX where XXX is a 3-digit HTTP code.'',
             finished = True\<rparr>, w)"
proof -
  from assms have "getHttpCodeFromUrl (req_url req) = None"
    by (simp add: getHttpCodeFromUrl_None)
  then show ?thesis
    by (simp add: requestListener_def res_end_def writeHead_def fresh_response_def)
qed

theorem invalid_path_not_found_witness:
  "\<not> is_code_path ''/200?x=1''
   \<and> requestListener ''cache'' no_faults (request_of ''DELETE'' ''/200?x=1'' []) empty_cache =
       (\<lparr>statusCode = 404, headers = [(''Content-Type'', ''text/plain'')], headersSent = True,
         body = ''Invalid URL format. Use /XXX where XXX is a 3-digit HTTP code.'',
         finished = True\<rparr>, empty_cache)"
proof -
  have h: "\<not> is_code_path (req_url (request_of ''DELETE'' ''/200?x=1'' []))"
    by (simp add: is_code_path_def valid_code_def request_of_def)
  from h invalid_path_not_found [OF h, of "''cache''" no_faults empty_cache]
  show ?thesis by (simp add: request_of_def)
qed

text \<open>
  C4. A PUT to the path of a valid code whose body, read to its end, has length zero is
  answered with status 400 and the body \<open>Bad Request: Image body is empty.\<close>, and
  the cache directory is left as it was: no file is created, changed or removed.
\<close>

theorem empty_put_rejected:
  assumes "req_url req = CHR ''/'' # code" and "valid_code code" and "req_method req = ''PUT''"
    and "body_error req = None" and "length (concat (chunks req)) = 0"
  shows "fst (requestListener cache flt req w) =
           \<lparr>statusCode = 400, headers = [(''Content-Type'', ''text/plain'')], headersSent = True,
             body = ''Bad Request: Image body is empty.'', finished = True\<rparr>
         \<and> files (snd (requestListener cache flt req w)) = files w"
proof -
  from assms(1,2) have "getHttpCodeFromUrl (req_url req) = Some code"
    by (rule valid_code_path)
  with assms(3,4,5) show ?thesis
    by (simp add: requestListener_def handler_defs)
qed

theorem empty_put_rejected_witness:
  "valid_code ''404''
   \<and> statusCode (fst (requestListener ''cache'' no_faults (request_of ''PUT'' ''/404'' ['''', ''''])
        \<lparr>files = [''cache/404.jpeg'' \<mapsto> ''old''], console = []\<rparr>)) = 400
   \<and> files (snd (requestListener ''cache'' no_faults (request_of ''PUT'' ''/404'' ['''', ''''])
        \<lparr>files = [''cache/404.jpeg'' \<mapsto> ''old''], console = []\<rparr>)) ''cache/404.jpeg'' = Some ''old''"
proof -
  let ?req = "request_of ''PUT'' ''/404'' ['''', '''']"
  have h1: "req_url ?req = CHR ''/'' # ''404''" by (simp add: request_of_def)
  have h3: "req_method ?req = ''PUT''" by (simp add: request_of_def)
  have h4: "body_error ?req = None" by (simp add: request_of_def)
  have h5: "length (concat (chunks ?req)) = 0" by (simp add: request_of_def)
  from empty_put_rejected [OF h1 valid_code_404 h3 h4 h5, of "''cache''" no_faults
      "\<lparr>files = [''cache/404.jpeg'' \<mapsto> ''old''], console = []\<rparr>"] valid_code_404
  show ?thesis by simp
qed

text \<open>
  C5. A DELETE of the path of a valid code, when \<^verbatim>\<open>unlink\<close> meets no other I/O error: if
  the code has an entry, the answer is status 200 with a plain-text confirmation and the
  entry is gone afterwards; if it has none (also when nothing was ever PUT), the answer
  is status 404 with the body \<open>Not Found: Image not in cache.\<close> and the cache
  directory is unchanged. Whatever \<^verbatim>\<open>unlink\<close> meets, an answer of status 200 means that
  the entry was present and is gone.
\<close>

theorem delete_outcome:
  assumes "req_url req = CHR ''/'' # code" and "valid_code code" and "req_method req = ''DELETE''"
  shows "(statusCode (fst (requestListener cache flt req w)) = 200 \<longrightarrow>
            files w (getCacheFilePath cache code) \<noteq> None
            \<and> files (snd (requestListener cache flt req w)) (getCacheFilePath cache code) = None)
       \<and> (unlink_fault flt = None \<longrightarrow>
            (files w (getCacheFilePath cache code) \<noteq> None \<longrightarrow>
               fst (requestListener cache flt req w) =
                 \<lparr>statusCode = 200, headers = [(''Content-Type'', ''text/plain'')], headersSent = True,
                  body = ''OK: Image for code '' @ code @ '' deleted from cache.'', finished = True\<rparr>
               \<and> files (snd (requestListener cache flt req w)) (getCacheFilePath cache code) = None)
          \<and> (files w (getCacheFilePath cache code) = None \<longrightarrow>
               fst (requestListener cache flt req w) =
                 \<lparr>statusCode = 404, headers = [(''Content-Type'', ''text/plain'')], headersSent = True,
                  body = ''Not Found: Image not in cache.'', finished = True\<rparr>
               \<and> files (snd (requestListener cache flt req w)) = files w)
          \<and> (statusCode (fst (requestListener cache flt req w)) = 200
               \<longleftrightarrow> files w (getCacheFilePath cache code) \<noteq> None))"
proof -
  from assms(1,2) have c: "getHttpCodeFromUrl (req_url req) = Some code"
    by (rule valid_code_path)
  note ok = delete_ok_was_present [OF c assms(3), of cache flt w]
  have "?thesis" if n: "unlink_fault flt = None"
  proof (cases "files w (getCacheFilePath cache code)")
    case None
    from delete_absent [OF c assms(3) n None] ok None show ?thesis
      by (simp add: text_response_def)
  next
    case (Some content)
    from delete_present [OF c assms(3) n Some] ok Some show ?thesis
      by (simp add: text_response_def)
  qed
  with ok show ?thesis by blast
qed

theorem delete_outcome_witness:
  "valid_code ''404''
   \<and> map statusCode (fst (serve ''cache''
        [(no_faults, request_of ''PUT'' ''/404'' [''hello'']),
         (no_faults, request_of ''DELETE'' ''/404'' []),
         (no_faults, request_of ''DELETE'' ''/404'' [])] empty_cache)) = [201, 200, 404]
   \<and> files empty_cache (getCacheFilePath ''cache'' ''404'') = None
   \<and> fst (requestListener ''cache'' no_faults (request_of ''DELETE'' ''/404'' []) empty_cache) =
          \<lparr>statusCode = 404, headers = [(''Content-Type'', ''text/plain'')], headersSent = True,
           body = ''Not Found: Image not in cache.'', finished = True\<rparr>"
proof -
  let ?req = "request_of ''DELETE'' ''/404'' []"
  have h1: "req_url ?req = CHR ''/'' # ''404''" by (simp add: request_of_def)
  have h3: "req_method ?req = ''DELETE''" by (simp add: request_of_def)
  have h4: "unlink_fault no_faults = None" by (simp add: no_faults_def)
  have run: "map statusCode (fst (serve ''cache''
        [(no_faults, request_of ''PUT'' ''/404'' [''hello'']),
         (no_faults, request_of ''DELETE'' ''/404'' []),
         (no_faults, request_of ''DELETE'' ''/404'' [])] empty_cache)) = [201, 200, 404]"
    by (simp add: requestListener_def handler_defs sample_defs Let_def is_digit_def)
  have e: "files empty_cache (getCacheFilePath ''cache'' ''404'') = None"
    by (simp add: empty_cache_def)
  from delete_outcome [OF h1 valid_code_404 h3, of "''cache''" no_faults empty_cache] h4 e
  have "fst (requestListener ''cache'' no_faults ?req empty_cache) =
          \<lparr>statusCode = 404, headers = [(''Content-Type'', ''text/plain'')], headersSent = True,
           body = ''Not Found: Image not in cache.'', finished = True\<rparr>"
    by blast
  with valid_code_404 run e show ?thesis by blast
qed

text \<open>
  C6. A request whose path is a slash and three digits and whose method is none of GET,
  PUT and DELETE is answered with status 405 and the plain-text body
  \<open>Method Not Allowed\<close>.
\<close>

theorem method_not_allowed:
  assumes "is_code_path (req_url req)"
    and "req_method req \<noteq> ''GET''" and "req_method req \<noteq> ''PUT''" and "req_method req \<noteq> ''DELETE''"
  shows "fst (requestListener cache flt req w) =
           \<lparr>statusCode = 405, headers = [(''Content-Type'', ''text/plain'')], headersSent = True,
             body = ''Method Not Allowed'', finished = True\<rparr>"
  using assms
  by (simp add: requestListener_def is_code_path_code res_end_def writeHead_def fresh_response_def)

theorem method_not_allowed_witness:
  "is_code_path ''/200''
   \<and> fst (requestListener ''cache'' no_faults (request_of ''PATCH'' ''/200'' [''x'']) empty_cache) =
       \<lparr>statusCode = 405, headers = [(''Content-Type'', ''text/plain'')], headersSent = True,
         body = ''Method Not Allowed'', finished = True\<rparr>"
proof -
  let ?req = "request_of ''PATCH'' ''/200'' [''x'']"
  have p: "is_code_path ''/200''" by (simp add: is_code_path_def valid_code_def)
  then have h1: "is_code_path (req_url ?req)" by (simp add: request_of_def)
  have h2: "req_method ?req \<noteq> ''GET''" by (simp add: request_of_def)
  have h3: "req_method ?req \<noteq> ''PUT''" by (simp add: request_of_def)
  have h4: "req_method ?req \<noteq> ''DELETE''" by (simp add: request_of_def)
  from p method_not_allowed [OF h1 h2 h3 h4, of "''cache''" no_faults empty_cache]
  show ?thesis by (rule conjI)
qed

text \<open>
  C7. A PUT to the path of a valid code whose body stream fails is answered with status
  500 (body \<open>Internal Server Error.\<close>), and \<^verbatim>\<open>writeFile\<close> is not reached: the chunks
  received so far are dropped and the cache directory is left as it was.
\<close>

theorem put_body_failure_stores_nothing:
  assumes "req_url req = CHR ''/'' # code" and "valid_code code" and "req_method req = ''PUT''"
    and "body_error req = Some e"
  shows "fst (requestListener cache flt req w) =
           \<lparr>statusCode = 500, headers = [(''Content-Type'', ''text/plain'')], headersSent = True,
             body = ''Internal Server Error.'', finished = True\<rparr>
         \<and> files (snd (requestListener cache flt req w)) = files w"
proof -
  from assms(1,2) have "getHttpCodeFromUrl (req_url req) = Some code"
    by (rule valid_code_path)
  with assms(3,4) show ?thesis
    by (simp add: requestListener_def handler_defs)
qed

theorem put_body_failure_stores_nothing_witness:
  "valid_code ''404''
   \<and> statusCode (fst (requestListener ''cache'' no_faults
        \<lparr>req_method = ''PUT'', req_url = ''/404'', chunks = [''hel''],
         body_error = Some \<lparr>err_code = ''ECONNRESET'', message = ''aborted''\<rparr>\<rparr>
        \<lparr>files = [''cache/404.jpeg'' \<mapsto> ''old''], console = []\<rparr>)) = 500
   \<and> files (snd (requestListener ''cache'' no_faults
        \<lparr>req_method = ''PUT'', req_url = ''/404'', chunks = [''hel''],
         body_error = Some \<lparr>err_code = ''ECONNRESET'', message = ''aborted''\<rparr>\<rparr>
        \<lparr>files = [''cache/404.jpeg'' \<mapsto> ''old''], console = []\<rparr>)) ''cache/404.jpeg'' = Some ''old''"
proof -
  let ?req = "\<lparr>req_method = ''PUT'', req_url = ''/404'', chunks = [''hel''],
         body_error = Some \<lparr>err_code = ''ECONNRESET'', message = ''aborted''\<rparr>\<rparr>"
  have h1: "req_url ?req = CHR ''/'' # ''404''" by simp
  have h3: "req_method ?req = ''PUT''" by simp
  have h4: "body_error ?req = Some \<lparr>err_code = ''ECONNRESET'', message = ''aborted''\<rparr>" by simp
  from put_body_failure_stores_nothing [OF h1 valid_code_404 h3 h4, of "''cache''" no_faults
      "\<lparr>files = [''cache/404.jpeg'' \<mapsto> ''old''], console = []\<rparr>"] valid_code_404
  show ?thesis by simp
qed

text \<open>
  C8. The response does not depend on the message of any error met while the request
  is handled: two executions on the same cache directory whose requests and failures
  differ in error messages only send the same response. A response with status 500 is
  plain text and its body is one of four fixed messages.
\<close>

theorem server_error_body_fixed:
  assumes "faults_alike flt flt'" and "requests_alike req req'"
  shows "fst (requestListener cache flt req w) = fst (requestListener cache flt' req' w)
       \<and> (statusCode (fst (requestListener cache flt req w)) = 500 \<longrightarrow>
            headers (fst (requestListener cache flt req w)) = [(''Content-Type'', ''text/plain'')]
            \<and> body (fst (requestListener cache flt req w)) \<in> set server_error_bodies)"
  using requestListener_alike [OF assms] requestListener_500 by blast

theorem server_error_body_fixed_witness:
  "faults_alike
     (no_faults\<lparr>unlink_fault := Some \<lparr>err_code = ''EACCES'', message = ''EACCES: permission denied, unlink /srv/secret/404.jpeg''\<rparr>\<rparr>)
     (no_faults\<lparr>unlink_fault := Some \<lparr>err_code = ''EACCES'', message = ''other''\<rparr>\<rparr>)
   \<and> statusCode (fst (requestListener ''cache''
        (no_faults\<lparr>unlink_fault := Some \<lparr>err_code = ''EACCES'', message = ''EACCES: permission denied, unlink /srv/secret/404.jpeg''\<rparr>\<rparr>)
        (request_of ''DELETE'' ''/404'' []) empty_cache)) = 500
   \<and> fst (requestListener ''cache''
        (no_faults\<lparr>unlink_fault := Some \<lparr>err_code = ''EACCES'', message = ''EACCES: permission denied, unlink /srv/secret/404.jpeg''\<rparr>\<rparr>)
        (request_of ''DELETE'' ''/404'' []) empty_cache)
     = fst (requestListener ''cache''
        (no_faults\<lparr>unlink_fault := Some \<lparr>err_code = ''EACCES'', message = ''other''\<rparr>\<rparr>)
        (request_of ''DELETE'' ''/404'' []) empty_cache)
   \<and> body (fst (requestListener ''cache''
        (no_faults\<lparr>unlink_fault := Some \<lparr>err_code = ''EACCES'', message = ''EACCES: permission denied, unlink /srv/secret/404.jpeg''\<rparr>\<rparr>)
        (request_of ''DELETE'' ''/404'' []) empty_cache)) \<in> set server_error_bodies"
proof -
  let ?f = "no_faults\<lparr>unlink_fault := Some \<lparr>err_code = ''EACCES'', message = ''EACCES: permission denied, unlink /srv/secret/404.jpeg''\<rparr>\<rparr>"
  let ?g = "no_faults\<lparr>unlink_fault := Some \<lparr>err_code = ''EACCES'', message = ''other''\<rparr>\<rparr>"
  let ?req = "request_of ''DELETE'' ''/404'' []"
  have h1: "faults_alike ?f ?g"
    by (simp add: faults_alike_def same_but_message_def no_faults_def)
  have h2: "requests_alike ?req ?req"
    by (simp add: requests_alike_def request_of_def)
  have s: "statusCode (fst (requestListener ''cache'' ?f ?req empty_cache)) = 500"
    by (simp add: requestListener_def handler_defs sample_defs Let_def is_digit_def)
  from server_error_body_fixed [OF h1 h2, of "''cache''" empty_cache] h1 s
  show ?thesis by blast
qed

text \<open>
  C9. For a path the router accepts, the captured code is the three ASCII digits after
  the slash, and its file path is \<^verbatim>\<open>path.join\<close> of the cache directory and the code
  followed by \<open>.jpeg\<close>. That path is the cache directory's prefix (empty, or ended by
  a slash, and the same for every code) followed by the file name, which holds no slash:
  the file lies directly in the cache directory. Two accepted codes with the same file
  path are the same code.
\<close>

theorem cache_path_confined:
  assumes "getHttpCodeFromUrl u = Some code"
  shows "u = CHR ''/'' # code \<and> valid_code code
       \<and> getCacheFilePath cache code = path_join cache (code @ ''.jpeg'')
       \<and> getCacheFilePath cache code = cache_dir_prefix cache @ code @ ''.jpeg''
       \<and> (cache_dir_prefix cache = [] \<or> last (cache_dir_prefix cache) = CHR ''/'')
       \<and> CHR ''/'' \<notin> set (code @ ''.jpeg'')
       \<and> (\<forall>u' code'. getHttpCodeFromUrl u' = Some code'
             \<and> getCacheFilePath cache code' = getCacheFilePath cache code \<longrightarrow> code' = code)"
proof -
  from assms have v: "u = CHR ''/'' # code \<and> valid_code code"
    by (simp add: getHttpCodeFromUrl_Some)
  then have "\<forall>u' code'. getHttpCodeFromUrl u' = Some code'
             \<and> getCacheFilePath cache code' = getCacheFilePath cache code \<longrightarrow> code' = code"
    using getCacheFilePath_inj by (auto simp: getHttpCodeFromUrl_Some)
  with v show ?thesis
    using getCacheFilePath_prefix valid_code_no_sep cache_dir_prefix_closed
    by (simp add: getCacheFilePath_def)
qed

theorem cache_path_confined_witness:
  "getHttpCodeFromUrl ''/404'' = Some ''404''
   \<and> getCacheFilePath ''./cache/../data//img/'' ''404'' = ''data/img/404.jpeg''
   \<and> cache_dir_prefix ''./cache/../data//img/'' = ''data/img/''
   \<and> getHttpCodeFromUrl ''/200'' = Some ''200''
   \<and> getCacheFilePath ''./cache/../data//img/'' ''200'' \<noteq> getCacheFilePath ''./cache/../data//img/'' ''404''"
proof -
  have h: "getHttpCodeFromUrl ''/404'' = Some ''404''" by (simp add: is_digit_def)
  have p: "cache_dir_prefix ''./cache/../data//img/'' = ''data/img/''"
    by (simp add: cache_dir_prefix_def normalize_step_def Let_def)
  note t = cache_path_confined [OF h, of "''./cache/../data//img/''"]
  from t have "getCacheFilePath ''./cache/../data//img/'' ''404''
      = cache_dir_prefix ''./cache/../data//img/'' @ ''404'' @ ''.jpeg''"
    by blast
  with p have a: "getCacheFilePath ''./cache/../data//img/'' ''404'' = ''data/img/404.jpeg''"
    by simp
  have h': "getHttpCodeFromUrl ''/200'' = Some ''200''" by (simp add: is_digit_def)
  have d: "''200'' \<noteq> ''404''" by simp
  from t h' d
  have b: "getCacheFilePath ''./cache/../data//img/'' ''200'' \<noteq> getCacheFilePath ''./cache/../data//img/'' ''404''"
    by blast
  from h p a h' b show ?thesis by blast
qed

text \<open>
  C10. Handling a request for a valid code leaves every file other than the file of
  that code as it was, whatever the method and whatever fails; in particular the
  entry of every other valid code is unchanged. A GET changes no file at all.
\<close>

theorem request_frame:
  assumes "req_url req = CHR ''/'' # code" and "valid_code code"
  shows "(\<forall>p. p \<noteq> getCacheFilePath cache code \<longrightarrow>
            files (snd (requestListener cache flt req w)) p = files w p)
       \<and> (\<forall>code'. valid_code code' \<and> code' \<noteq> code \<longrightarrow>
            files (snd (requestListener cache flt req w)) (getCacheFilePath cache code')
              = files w (getCacheFilePath cache code'))
       \<and> (req_method req = ''GET'' \<longrightarrow> files (snd (requestListener cache flt req w)) = files w)"
proof -
  from assms(1,2) have c: "getHttpCodeFromUrl (req_url req) = Some code"
    by (rule valid_code_path)
  have "getCacheFilePath cache code' \<noteq> getCacheFilePath cache code"
    if "valid_code code'" "code' \<noteq> code" for code'
    using that assms(2) getCacheFilePath_inj by blast
  then show ?thesis
    using requestListener_files [OF c] requestListener_get_files by blast
qed

theorem request_frame_witness:
  "valid_code ''404'' \<and> valid_code ''200'' \<and> ''200'' \<noteq> ''404''
   \<and> files (snd (requestListener ''cache'' no_faults (request_of ''PUT'' ''/404'' [''new''])
        \<lparr>files = [''cache/200.jpeg'' \<mapsto> ''ok'', ''cache/404.jpeg'' \<mapsto> ''old''], console = []\<rparr>))
       (getCacheFilePath ''cache'' ''200'')
     = files \<lparr>files = [''cache/200.jpeg'' \<mapsto> ''ok'', ''cache/404.jpeg'' \<mapsto> ''old''], console = []\<rparr>
       (getCacheFilePath ''cache'' ''200'')
   \<and> files (snd (requestListener ''cache'' no_faults (request_of ''GET'' ''/404'' []) empty_cache))
          = files empty_cache"
proof -
  let ?w = "\<lparr>files = [''cache/200.jpeg'' \<mapsto> ''ok'', ''cache/404.jpeg'' \<mapsto> ''old''], console = []\<rparr>"
  have h1: "req_url (request_of ''PUT'' ''/404'' [''new'']) = CHR ''/'' # ''404''"
    by (simp add: request_of_def)
  have g1: "req_url (request_of ''GET'' ''/404'' []) = CHR ''/'' # ''404''"
    by (simp add: request_of_def)
  have d: "''200'' \<noteq> ''404''" by simp
  from request_frame [OF h1 valid_code_404, of "''cache''" no_faults ?w] valid_code_200 d
  have a: "files (snd (requestListener ''cache'' no_faults (request_of ''PUT'' ''/404'' [''new'']) ?w))
       (getCacheFilePath ''cache'' ''200'') = files ?w (getCacheFilePath ''cache'' ''200'')"
    by blast
  have g2: "req_method (request_of ''GET'' ''/404'' []) = ''GET''"
    by (simp add: request_of_def)
  from request_frame [OF g1 valid_code_404, of "''cache''" no_faults empty_cache] g2
  have b: "files (snd (requestListener ''cache'' no_faults (request_of ''GET'' ''/404'' []) empty_cache))
          = files empty_cache"
    by blast
  from valid_code_404 valid_code_200 d a b show ?thesis by blast
qed

end
